theory Spec2Isabelle
  imports Complex_Main
begin

section \<open>Tables, missing values and the store\<close>

text \<open>
  The Python code works on pandas data frames. A frame is modelled by its row index and
  its columns in column order, each column holding one cell per row. A cell is missing
  (\<open>NaN\<close>, \<open>None\<close>), a number or a text. A number in a cell is the real number
  the float denotes; the reducer and the adapters copy cells and compute nothing with
  them.
\<close>

datatype error =
    ValueError | KeyError | TypeError | IndexError | ZeroDivisionError
  | FileNotFoundError | EmptyDataError | ParserError

datatype cell = NA | Num real | Txt string

record 'i table =
  index :: "'i list"
  columns :: "(string \<times> cell list) list"

fun isna :: "cell \<Rightarrow> bool" where
  "isna NA = True"
| "isna (Num x) = False"
| "isna (Txt s) = False"

definition column_names :: "'i table \<Rightarrow> string list" where
  "column_names df = map fst (columns df)"

definition column_of :: "'i table \<Rightarrow> string \<Rightarrow> cell list option" where
  "column_of df name = map_of (columns df) name"

definition nrows :: "'i table \<Rightarrow> nat" where
  "nrows df = length (index df)"

text \<open>
  \<open>Series.ffill\<close>: a missing cell takes the last non-missing value seen before it (it
  stays missing when there is none). \<open>Series.bfill\<close>: a missing cell takes the next
  non-missing value after it (it stays missing when there is none).
\<close>

fun ffill_from :: "cell \<Rightarrow> cell list \<Rightarrow> cell list" where
  "ffill_from prev [] = []"
| "ffill_from prev (x # xs) =
     (if isna x then prev # ffill_from prev xs else x # ffill_from x xs)"

definition ffill_col :: "cell list \<Rightarrow> cell list" where
  "ffill_col xs = ffill_from NA xs"

fun bfill_col :: "cell list \<Rightarrow> cell list" where
  "bfill_col [] = []"
| "bfill_col (x # xs) =
     (let rest = bfill_col xs
      in (if isna x then (case rest of [] \<Rightarrow> NA | y # ys \<Rightarrow> y) else x) # rest)"

text \<open>\<open>DataFrame.ffill()\<close> and \<open>DataFrame.bfill()\<close> fill every column and return a new frame.\<close>

definition ffill :: "'i table \<Rightarrow> 'i table" where
  "ffill df = df\<lparr>columns := map (\<lambda>(name, col). (name, ffill_col col)) (columns df)\<rparr>"

definition bfill :: "'i table \<Rightarrow> 'i table" where
  "bfill df = df\<lparr>columns := map (\<lambda>(name, col). (name, bfill_col col)) (columns df)\<rparr>"

text \<open>\<open>DataFrame.drop(columns=names)\<close> removes every column whose label is in \<open>names\<close>.\<close>

definition drop_columns :: "'i table \<Rightarrow> string list \<Rightarrow> 'i table" where
  "drop_columns df names = df\<lparr>columns := filter (\<lambda>(name, col). name \<notin> set names) (columns df)\<rparr>"

text \<open>\<open>DataFrame.rename(columns={old: new})\<close> returns a new frame with the label replaced.\<close>

definition rename :: "'i table \<Rightarrow> string \<Rightarrow> string \<Rightarrow> 'i table" where
  "rename df old new =
     df\<lparr>columns := map (\<lambda>(name, col). (if name = old then new else name, col)) (columns df)\<rparr>"

text \<open>
  Frames are objects: \<open>drop(..., inplace=True)\<close> changes the object the caller holds,
  while \<open>ffill\<close> and \<open>bfill\<close> build new objects. The store is the list of live frames, a
  reference is a position in it, and a new object is put at the end.
\<close>

type_synonym ref = nat

type_synonym 'i store = "'i table list"

definition alloc :: "'i store \<Rightarrow> 'i table \<Rightarrow> 'i store \<times> ref" where
  "alloc st df = (st @ [df], length st)"

section \<open>The column reducer\<close>

text \<open>
  \<^verbatim>\<open>
  def drop_all_except(df, keep_column):
      columns_to_drop = [col for col in df.columns if col != keep_column]
      df.drop(columns=columns_to_drop, inplace=True)
      # Backward Fill then Fill forward remaining NaNs
      df = df.ffill().bfill()
      return df
  \<close>
  The function gets the store and the reference of the caller's frame; it returns the
  store after the call and the reference of the frame it returns.
\<close>

definition drop_all_except :: "'i store \<Rightarrow> ref \<Rightarrow> string \<Rightarrow> 'i store \<times> ref" where
  "drop_all_except st df keep_column =
     (let columns_to_drop = filter (\<lambda>col. col \<noteq> keep_column) (column_names (st ! df));
          st1 = st[df := drop_columns (st ! df) columns_to_drop]
      in alloc st1 (bfill (ffill (st1 ! df))))"

text \<open>The two-pass fill of one column, as the reducer applies it: \<open>col.ffill().bfill()\<close>.\<close>

definition fill_col :: "cell list \<Rightarrow> cell list" where
  "fill_col xs = bfill_col (ffill_col xs)"

section \<open>Frame operations of the adapters\<close>

text \<open>\<open>df[name]\<close> raises \<open>KeyError\<close> when no column has the label.\<close>

definition get_column :: "'i table \<Rightarrow> string \<Rightarrow> error + cell list" where
  "get_column df name = (case column_of df name of None \<Rightarrow> Inl KeyError | Some col \<Rightarrow> Inr col)"

text \<open>
  \<open>df.columns = names\<close> relabels the columns by position and raises \<open>ValueError\<close>
  (length mismatch) when the frame does not have \<open>len(names)\<close> columns.
\<close>

definition set_columns :: "'i table \<Rightarrow> string list \<Rightarrow> error + 'i table" where
  "set_columns df names =
     (if length names \<noteq> length (columns df) then Inl ValueError
      else Inr (df\<lparr>columns := zip names (map snd (columns df))\<rparr>))"

text \<open>
  \<open>pd.to_datetime(series)\<close> converts cell by cell and raises \<open>ValueError\<close> at a cell
  it cannot convert. The conversion of one cell belongs to pandas and is a parameter.
\<close>

fun to_datetime :: "(cell \<Rightarrow> 'ts option) \<Rightarrow> cell list \<Rightarrow> error + 'ts list" where
  "to_datetime parse [] = Inr []"
| "to_datetime parse (x # xs) =
     (case parse x of
        None \<Rightarrow> Inl ValueError
      | Some t \<Rightarrow> (case to_datetime parse xs of Inl e \<Rightarrow> Inl e | Inr ts \<Rightarrow> Inr (t # ts)))"

text \<open>
  A column that \<open>pd.read_csv\<close> built holds texts (dtype \<open>object\<close>) when it has no row
  or has a text in it, and numbers otherwise (a column whose fields are all missing is a
  column of floats).
\<close>

fun is_txt :: "cell \<Rightarrow> bool" where
  "is_txt (Txt s) = True"
| "is_txt NA = False"
| "is_txt (Num x) = False"

definition object_dtype :: "cell list \<Rightarrow> bool" where
  "object_dtype col = (col = [] \<or> list_ex is_txt col)"

text \<open>
  \<open>series + series\<close> where the left one is a column of texts, cell by cell: texts are
  concatenated, a missing operand gives a missing cell, a text and a number raise
  \<open>TypeError\<close>. (The sum of two numbers is not reached by the adapters.)
\<close>

fun add_cell :: "cell \<Rightarrow> cell \<Rightarrow> error + cell" where
  "add_cell (Txt a) (Txt b) = Inr (Txt (a @ b))"
| "add_cell (Num a) (Num b) = Inr (Num (a + b))"
| "add_cell NA y = Inr NA"
| "add_cell x NA = Inr NA"
| "add_cell (Txt a) (Num b) = Inl TypeError"
| "add_cell (Num a) (Txt b) = Inl TypeError"

fun add_series :: "cell list \<Rightarrow> cell list \<Rightarrow> error + cell list" where
  "add_series (x # xs) (y # ys) =
     (case add_cell x y of
        Inl e \<Rightarrow> Inl e
      | Inr z \<Rightarrow> (case add_series xs ys of Inl e \<Rightarrow> Inl e | Inr zs \<Rightarrow> Inr (z # zs)))"
| "add_series [] ys = Inr []"
| "add_series xs [] = Inr []"

text \<open>
  \<open>series + text\<close>: on a column of texts the text is appended to every text and a
  missing cell stays missing; on a column of numbers the addition raises \<open>TypeError\<close>,
  also when every cell of it is missing.
\<close>

definition add_text :: "cell list \<Rightarrow> string \<Rightarrow> error + cell list" where
  "add_text xs s =
     (if object_dtype xs then add_series xs (replicate (length xs) (Txt s))
      else Inl TypeError)"

text \<open>
  \<open>df['Datetime'] = stamps\<close> followed by \<open>df.set_index('Datetime', inplace=True)\<close>: the
  stamps become the row index and no column labelled \<open>Datetime\<close> is left.
\<close>

definition set_datetime_index :: "'i table \<Rightarrow> 'ts list \<Rightarrow> 'ts table" where
  "set_datetime_index df stamps =
     \<lparr>index = stamps, columns = filter (\<lambda>(name, col). name \<noteq> ''Datetime'') (columns df)\<rparr>"

text \<open>\<open>pd.DataFrame(rates)\<close> on a record array: one column per field, rows numbered from 0.\<close>

definition DataFrame :: "(string \<times> cell list) list \<Rightarrow> nat table" where
  "DataFrame rates =
     \<lparr>index = [0 ..< (case rates of [] \<Rightarrow> 0 | (name, col) # rest \<Rightarrow> length col)],
      columns = rates\<rparr>"

section \<open>Reading a delimited file\<close>

text \<open>
  \<open>pd.read_csv(file_path, delimiter=delim)\<close>. The file is \<open>None\<close> when the path
  cannot be read, and otherwise the list of its records (its non-blank lines, split at
  the delimiter by pandas' tokenizer), the first record being the header.

  The header gives the columns. The first data record fixes the number of fields of a
  record: a shorter record is padded with missing fields, a longer one raises
  \<open>ParserError\<close>. When the records have more fields than the header has names, the
  extra leading fields become the row labels and the columns are read from the fields
  after them. A file with no record raises \<open>EmptyDataError\<close>.
\<close>

datatype row_label = Position nat | Leading "string list"

definition na_values :: "string list" where
  "na_values =
     ['''', ''#N/A'', ''#N/A N/A'', ''#NA'', ''-1.#IND'', ''-1.#QNAN'', ''-NaN'', ''-nan'',
      ''1.#IND'', ''1.#QNAN'', ''<NA>'', ''N/A'', ''NA'', ''NULL'', ''NaN'', ''None'', ''n/a'',
      ''nan'', ''null'']"

text \<open>
  The cells of one column: a field that is one of the missing-value texts is missing; when
  every other field reads as a number the column holds numbers, otherwise it holds the
  texts as they are. Which texts pandas reads as a number (or a truth value) instead of
  keeping them as texts is the parameter \<open>number\<close>.
\<close>

definition column_cells :: "(string \<Rightarrow> real option) \<Rightarrow> string list \<Rightarrow> cell list" where
  "column_cells number entries =
     (if list_all (\<lambda>f. f \<in> set na_values \<or> number f \<noteq> None) entries
      then map (\<lambda>f. if f \<in> set na_values then NA
                     else (case number f of None \<Rightarrow> NA | Some x \<Rightarrow> Num x)) entries
      else map (\<lambda>f. if f \<in> set na_values then NA else Txt f) entries)"

definition pad_row :: "nat \<Rightarrow> string list \<Rightarrow> string list" where
  "pad_row w r = r @ replicate (w - length r) ''''"

definition read_csv ::
  "(string \<Rightarrow> real option) \<Rightarrow> string list list option \<Rightarrow> error + row_label table" where
  "read_csv number file =
     (case file of
        None \<Rightarrow> Inl FileNotFoundError
      | Some [] \<Rightarrow> Inl EmptyDataError
      | Some (header # rows) \<Rightarrow>
         (let n = length header;
              w = (case rows of [] \<Rightarrow> n | first # rest \<Rightarrow> max n (length first))
          in if list_ex (\<lambda>r. w < length r) rows then Inl ParserError
             else
               (let padded = map (pad_row w) rows;
                    lead = w - n
                in Inr \<lparr>index = (if lead = 0 then map Position [0 ..< length rows]
                                 else map (\<lambda>r. Leading (take lead r)) padded),
                        columns = map (\<lambda>j. (header ! j,
                                              column_cells number (map (\<lambda>r. r ! (lead + j)) padded)))
                                    [0 ..< n]\<rparr>)))"

section \<open>The source adapters\<close>

text \<open>
  \<^verbatim>\<open>
  rates = ticker.history(start=start, end=end, interval=timeframe)
  if drop_other_column:
      drop_all_except(rates, 'Close')
  df = rates.rename(columns={'Close': 'Price'})
  return df
  \<close>
  The frame the vendor returns is the argument \<open>history\<close>. The frame returned by
  \<open>drop_all_except\<close> is not bound to a name: the adapter goes on with \<open>rates\<close>.
\<close>

definition get_yfinance_data :: "'i table \<Rightarrow> bool \<Rightarrow> 'i table" where
  "get_yfinance_data history drop_other_column =
     (let (st, rates) = alloc [] history;
          st1 = (if drop_other_column then fst (drop_all_except st rates ''Close'') else st)
      in rename (st1 ! rates) ''Close'' ''Price'')"

definition daily_schema :: "string list" where
  "daily_schema = [''Date'', ''Open'', ''High'', ''Low'', ''Price'', ''TickVol'', ''Vol'', ''Spread'']"

definition intraday_schema :: "string list" where
  "intraday_schema =
     [''Date'', ''Time'', ''Open'', ''High'', ''Low'', ''Price'', ''TickVol'', ''Vol'', ''Spread'']"

text \<open>
  \<^verbatim>\<open>
  df = pd.read_csv(file_path, delimiter=delim)
  if dailyBars:
      df.columns = ['Date', 'Open', 'High', 'Low', 'Price', 'TickVol', 'Vol', 'Spread']
      df['Datetime'] = pd.to_datetime(df['Date'])
  else:
      df.columns = ['Date', 'Time', 'Open', 'High', 'Low', 'Price', 'TickVol', 'Vol', 'Spread']
      df['Datetime'] = pd.to_datetime(df['Date'] + ' ' + df['Time'])
  df.set_index('Datetime', inplace=True)
  if drop_other_column:
      df = drop_all_except(df, 'Price')
  return df
  \<close>
  The file is the argument \<open>file\<close>.
\<close>

definition get_csv_data ::
  "(string \<Rightarrow> real option) \<Rightarrow> (cell \<Rightarrow> 'ts option) \<Rightarrow> string list list option \<Rightarrow>
   bool \<Rightarrow> bool \<Rightarrow> error + 'ts table" where
  "get_csv_data number parse file dailyBars drop_other_column =
     (case read_csv number file of
        Inl e \<Rightarrow> Inl e
      | Inr df0 \<Rightarrow>
         (case
            (if dailyBars then
               (case set_columns df0 daily_schema of
                  Inl e \<Rightarrow> Inl e
                | Inr df \<Rightarrow>
                   (case get_column df ''Date'' of
                      Inl e \<Rightarrow> Inl e
                    | Inr dates \<Rightarrow>
                       (case to_datetime parse dates of
                          Inl e \<Rightarrow> Inl e
                        | Inr stamps \<Rightarrow> Inr (set_datetime_index df stamps))))
             else
               (case set_columns df0 intraday_schema of
                  Inl e \<Rightarrow> Inl e
                | Inr df \<Rightarrow>
                   (case get_column df ''Date'' of
                      Inl e \<Rightarrow> Inl e
                    | Inr dates \<Rightarrow>
                       (case add_text dates '' '' of
                          Inl e \<Rightarrow> Inl e
                        | Inr spaced \<Rightarrow>
                           (case get_column df ''Time'' of
                              Inl e \<Rightarrow> Inl e
                            | Inr time_col \<Rightarrow>
                               (case add_series spaced time_col of
                                  Inl e \<Rightarrow> Inl e
                                | Inr texts \<Rightarrow>
                                   (case to_datetime parse texts of
                                      Inl e \<Rightarrow> Inl e
                                    | Inr stamps \<Rightarrow> Inr (set_datetime_index df stamps))))))))
          of
            Inl e \<Rightarrow> Inl e
          | Inr df \<Rightarrow>
             (if drop_other_column then
                (let (st, r) = alloc [] df;
                     (st1, res) = drop_all_except st r ''Price''
                 in Inr (st1 ! res))
              else Inr df)))"

text \<open>The bar codes of the trading platform (\<open>mt5.TIMEFRAME_M1\<close>, ...).\<close>

datatype mt5_timeframe =
    TIMEFRAME_M1 | TIMEFRAME_M2 | TIMEFRAME_M3 | TIMEFRAME_M4 | TIMEFRAME_M5 | TIMEFRAME_M6
  | TIMEFRAME_M10 | TIMEFRAME_M12 | TIMEFRAME_M15 | TIMEFRAME_M20 | TIMEFRAME_M30
  | TIMEFRAME_H1 | TIMEFRAME_H2 | TIMEFRAME_H3 | TIMEFRAME_H4 | TIMEFRAME_H6 | TIMEFRAME_H8
  | TIMEFRAME_H12 | TIMEFRAME_D1 | TIMEFRAME_W1 | TIMEFRAME_MN1

definition timeframes :: "string \<Rightarrow> mt5_timeframe option" where
  "timeframes = map_of
     [(''M1'', TIMEFRAME_M1), (''M2'', TIMEFRAME_M2), (''M3'', TIMEFRAME_M3),
      (''M4'', TIMEFRAME_M4), (''M5'', TIMEFRAME_M5), (''M6'', TIMEFRAME_M6),
      (''M10'', TIMEFRAME_M10), (''M12'', TIMEFRAME_M12), (''M15'', TIMEFRAME_M15),
      (''M20'', TIMEFRAME_M20), (''M30'', TIMEFRAME_M30), (''H1'', TIMEFRAME_H1),
      (''H2'', TIMEFRAME_H2), (''H3'', TIMEFRAME_H3), (''H4'', TIMEFRAME_H4),
      (''H6'', TIMEFRAME_H6), (''H8'', TIMEFRAME_H8), (''H12'', TIMEFRAME_H12),
      (''D1'', TIMEFRAME_D1), (''W1'', TIMEFRAME_W1), (''MN1'', TIMEFRAME_MN1)]"

text \<open>
  \<^verbatim>\<open>
  if not authorized: return
  bar_time = timeframes.get(timeframe)
  if bar_time is None: return None
  rates = None
  if start_date is not None and end_date is not None:
      rates = mt5.copy_rates_range(symbol, bar_time, start_date, end_date)
  if start_pos is not None and end_pos is not None:
      rates = mt5.copy_rates_from_pos(symbol, bar_time, start_pos, end_pos)
  if rates is None: return None
  df = pd.DataFrame(rates)
  df['Datetime'] = pd.to_datetime(df['time'], unit='s')
  df.set_index('Datetime', inplace=True)
  if drop_other_column:
      drop_all_except(df, 'close')
  df = df.rename(columns={'close': 'Price'})
  return df
  \<close>
  The two history requests of the platform are the arguments \<open>copy_rates_range\<close> and
  \<open>copy_rates_from_pos\<close>; each gives the record array, or \<open>None\<close>. As in the vendor
  adapter, the frame returned by \<open>drop_all_except\<close> is not bound to a name.
\<close>

definition get_mt5_data ::
  "(string \<Rightarrow> mt5_timeframe \<Rightarrow> 'd \<Rightarrow> 'd \<Rightarrow> (string \<times> cell list) list option) \<Rightarrow>
   (string \<Rightarrow> mt5_timeframe \<Rightarrow> int \<Rightarrow> int \<Rightarrow> (string \<times> cell list) list option) \<Rightarrow>
   (cell \<Rightarrow> 'ts option) \<Rightarrow>
   bool \<Rightarrow> string \<Rightarrow> string \<Rightarrow> 'd option \<Rightarrow> 'd option \<Rightarrow> int option \<Rightarrow> int option \<Rightarrow> bool \<Rightarrow>
   error + 'ts table option" where
  "get_mt5_data copy_rates_range copy_rates_from_pos parse
       authorized symbol timeframe start_date end_date start_pos end_pos drop_other_column =
     (if \<not> authorized then Inr None
      else
        (case timeframes timeframe of
           None \<Rightarrow> Inr None
         | Some bar_time \<Rightarrow>
            (let rates0 = None;
                 rates1 = (case (start_date, end_date) of
                             (Some s, Some e) \<Rightarrow> copy_rates_range symbol bar_time s e
                           | _ \<Rightarrow> rates0);
                 rates2 = (case (start_pos, end_pos) of
                             (Some s, Some e) \<Rightarrow> copy_rates_from_pos symbol bar_time s e
                           | _ \<Rightarrow> rates1)
             in (case rates2 of
                   None \<Rightarrow> Inr None
                 | Some rates \<Rightarrow>
                    (let df = DataFrame rates
                     in (case get_column df ''time'' of
                           Inl e \<Rightarrow> Inl e
                         | Inr secs \<Rightarrow>
                            (case to_datetime parse secs of
                               Inl e \<Rightarrow> Inl e
                             | Inr stamps \<Rightarrow>
                                (let (st, r) = alloc [] (set_datetime_index df stamps);
                                     st1 = (if drop_other_column
                                            then fst (drop_all_except st r ''close'') else st)
                                 in Inr (Some (rename (st1 ! r) ''close'' ''Price''))))))))))"

section \<open>The display formatter\<close>

text \<open>
  A Python float is not-a-number, an infinity or a finite value; finite values are exact
  reals here. \<open>np.isnan\<close> tests for not-a-number.
\<close>

datatype pyfloat = Nan | Inf_pos | Inf_neg | Val real






text \<open>
  Fixed-point rendering with \<open>p\<close> fractional digits: the value is rounded to the nearest
  multiple of \<open>10 ^ -p\<close>, ties to the even digit, and a negative value keeps its sign.
\<close>

definition round_half_even :: "real \<Rightarrow> int" where
  "round_half_even x =
     (let f = \<lfloor>x\<rfloor>; d = x - of_int f
      in if d < 1 / 2 then f else if 1 / 2 < d then f + 1 else if even f then f else f + 1)"









section \<open>Double arithmetic\<close>

text \<open>
  The arithmetic of Python floats is that of IEEE doubles: the exact result is rounded to
  the nearest double, ties to the even one, and a result too large for a double is an
  infinity. A finite float is the real number it denotes (the two zeros are one value;
  they compare equal in Python).

  The doubles around \<open>x\<close> are the multiples of \<open>quantum x\<close>: \<open>2 ^ (e - 52)\<close> where
  \<open>2 ^ e \<le> \<bar>x\<bar> < 2 ^ (e + 1)\<close>, with \<open>e\<close> not below \<open>-1022\<close> (below that the doubles
  are spaced \<open>2 ^ -1074\<close> apart). \<open>exp_up\<close> counts the halvings that bring a value
  below 2, \<open>exp_down\<close> the doublings that bring it to 1.
\<close>

fun exp_up :: "real \<Rightarrow> nat \<Rightarrow> nat" where
  "exp_up x 0 = 0"
| "exp_up x (Suc n) = (if 2 \<le> x then Suc (exp_up (x / 2) n) else 0)"

fun exp_down :: "real \<Rightarrow> nat \<Rightarrow> nat" where
  "exp_down x 0 = 0"
| "exp_down x (Suc n) = (if x < 1 then Suc (exp_down (x * 2) n) else 0)"

definition quantum :: "real \<Rightarrow> real" where
  "quantum x =
     (if 1 \<le> \<bar>x\<bar> then 2 ^ exp_up \<bar>x\<bar> 1024 / 2 ^ 52
      else 1 / (2 ^ exp_down \<bar>x\<bar> 1022 * 2 ^ 52))"

definition fl :: "real \<Rightarrow> pyfloat" where
  "fl x =
     (if x = 0 then Val 0
      else
        (let q = quantum x;
             r = of_int (round_half_even (x / q)) * q
         in if 2 ^ 1024 \<le> \<bar>r\<bar> then (if r < 0 then Inf_neg else Inf_pos) else Val r))"

fun fneg :: "pyfloat \<Rightarrow> pyfloat" where
  "fneg (Val a) = Val (- a)"
| "fneg Nan = Nan"
| "fneg Inf_pos = Inf_neg"
| "fneg Inf_neg = Inf_pos"

fun fadd :: "pyfloat \<Rightarrow> pyfloat \<Rightarrow> pyfloat" where
  "fadd (Val a) (Val b) = fl (a + b)"
| "fadd Nan y = Nan"
| "fadd x Nan = Nan"
| "fadd Inf_pos Inf_neg = Nan"
| "fadd Inf_neg Inf_pos = Nan"
| "fadd Inf_pos y = Inf_pos"
| "fadd Inf_neg y = Inf_neg"
| "fadd x Inf_pos = Inf_pos"
| "fadd x Inf_neg = Inf_neg"

definition fsub :: "pyfloat \<Rightarrow> pyfloat \<Rightarrow> pyfloat" where
  "fsub x y = fadd x (fneg y)"

fun fmul :: "pyfloat \<Rightarrow> pyfloat \<Rightarrow> pyfloat" where
  "fmul (Val a) (Val b) = fl (a * b)"
| "fmul Nan y = Nan"
| "fmul x Nan = Nan"
| "fmul Inf_pos Inf_pos = Inf_pos"
| "fmul Inf_pos Inf_neg = Inf_neg"
| "fmul Inf_neg Inf_pos = Inf_neg"
| "fmul Inf_neg Inf_neg = Inf_pos"
| "fmul Inf_pos (Val b) = (if b = 0 then Nan else if b < 0 then Inf_neg else Inf_pos)"
| "fmul Inf_neg (Val b) = (if b = 0 then Nan else if b < 0 then Inf_pos else Inf_neg)"
| "fmul (Val a) Inf_pos = (if a = 0 then Nan else if a < 0 then Inf_neg else Inf_pos)"
| "fmul (Val a) Inf_neg = (if a = 0 then Nan else if a < 0 then Inf_pos else Inf_neg)"

fun fquot :: "pyfloat \<Rightarrow> pyfloat \<Rightarrow> pyfloat" where
  "fquot (Val a) (Val b) = fl (a / b)"
| "fquot Nan y = Nan"
| "fquot x Nan = Nan"
| "fquot Inf_pos (Val b) = (if b < 0 then Inf_neg else Inf_pos)"
| "fquot Inf_neg (Val b) = (if b < 0 then Inf_pos else Inf_neg)"
| "fquot (Val a) Inf_pos = Val 0"
| "fquot (Val a) Inf_neg = Val 0"
| "fquot Inf_pos Inf_pos = Nan"
| "fquot Inf_pos Inf_neg = Nan"
| "fquot Inf_neg Inf_pos = Nan"
| "fquot Inf_neg Inf_neg = Nan"

definition fdiv :: "pyfloat \<Rightarrow> pyfloat \<Rightarrow> error + pyfloat" where
  "fdiv x y = (if y = Val 0 then Inl ZeroDivisionError else Inr (fquot x y))"

fun flt :: "pyfloat \<Rightarrow> pyfloat \<Rightarrow> bool" where
  "flt (Val a) (Val b) = (a < b)"
| "flt Nan y = False"
| "flt x Nan = False"
| "flt Inf_neg Inf_neg = False"
| "flt Inf_neg y = True"
| "flt x Inf_neg = False"
| "flt Inf_pos y = False"
| "flt x Inf_pos = True"

text \<open>The values that are doubles, and the float values.\<close>

definition is_double :: "real \<Rightarrow> bool" where
  "is_double x = (fl x = Val x)"

fun is_float :: "pyfloat \<Rightarrow> bool" where
  "is_float (Val x) = is_double x"
| "is_float Nan = True"
| "is_float Inf_pos = True"
| "is_float Inf_neg = True"

section \<open>The range mapper\<close>

text \<open>
  \<^verbatim>\<open>
  def scale(val, src, dst):
      if val < src[0]: return dst[0]
      if val > src[1]: return dst[1]
      return ((val - src[0]) / (src[1] - src[0])) * (dst[1] - dst[0]) + dst[0]
  \<close>
  The ranges are sequences: reading a position a sequence does not have raises
  \<open>IndexError\<close>, and dividing by a zero width raises \<open>ZeroDivisionError\<close>. The
  operands are evaluated from left to right, each operation in double arithmetic.
\<close>

definition item :: "'a list \<Rightarrow> nat \<Rightarrow> error + 'a" where
  "item xs i = (if i < length xs then Inr (xs ! i) else Inl IndexError)"

definition scale :: "pyfloat \<Rightarrow> pyfloat list \<Rightarrow> pyfloat list \<Rightarrow> error + pyfloat" where
  "scale val src dst =
     (case item src 0 of
        Inl e \<Rightarrow> Inl e
      | Inr src0 \<Rightarrow>
         if flt val src0 then item dst 0
         else
           (case item src 1 of
              Inl e \<Rightarrow> Inl e
            | Inr src1 \<Rightarrow>
               if flt src1 val then item dst 1
               else
                 (case fdiv (fsub val src0) (fsub src1 src0) of
                    Inl e \<Rightarrow> Inl e
                  | Inr ratio \<Rightarrow>
                     (case item dst 1 of
                        Inl e \<Rightarrow> Inl e
                      | Inr dst1 \<Rightarrow>
                         (case item dst 0 of
                            Inl e \<Rightarrow> Inl e
                          | Inr dst0 \<Rightarrow> Inr (fadd (fmul ratio (fsub dst1 dst0)) dst0))))))"

section \<open>Notions used in the proofs\<close>

text \<open>
  What the reducer leaves in the caller's frame (the columns labelled \<open>k\<close>), and the
  two-pass fill of every column of a frame.
\<close>

definition keep_only :: "'i table \<Rightarrow> string \<Rightarrow> 'i table" where
  "keep_only df k = df\<lparr>columns := filter (\<lambda>(name, col). name = k) (columns df)\<rparr>"

definition fill_table :: "'i table \<Rightarrow> 'i table" where
  "fill_table df = df\<lparr>columns := map (\<lambda>(name, col). (name, fill_col col)) (columns df)\<rparr>"

text \<open>A sample conversion of a cell to a time stamp: a text stands for itself.\<close>

fun text_stamp :: "cell \<Rightarrow> string option" where
  "text_stamp (Txt s) = Some s"
| "text_stamp NA = None"
| "text_stamp (Num x) = None"

text \<open>A sample conversion of epoch seconds: a number stands for itself.\<close>

fun epoch_stamp :: "cell \<Rightarrow> real option" where
  "epoch_stamp (Num x) = Some x"
| "epoch_stamp NA = None"
| "epoch_stamp (Txt s) = None"

text \<open>
  Sample inputs: vendor bars with gaps, no bars and a record array of the platform.
\<close>

definition bars_with_gaps :: "nat table" where
  "bars_with_gaps =
     \<lparr>index = [0, 1, 2, 3],
      columns = [(''Open'', [Num 5, Num 6, NA, Num 8]), (''Close'', [NA, Num 1, NA, Num 3])]\<rparr>"

definition no_bars :: "nat table" where
  "no_bars = \<lparr>index = [], columns = [(''Open'', []), (''Close'', [])]\<rparr>"

definition platform_rates :: "(string \<times> cell list) list" where
  "platform_rates =
     [(''time'', [Num 0, Num 60, Num 120]), (''open'', [Num 1, Num 2, Num 3]),
      (''close'', [Num 1, NA, Num 3])]"

text \<open>A sample reading of numbers: the ten digits.\<close>

definition digit_number :: "string \<Rightarrow> real option" where
  "digit_number =
     map_of [(''0'', 0), (''1'', 1), (''2'', 2), (''3'', 3), (''4'', 4), (''5'', 5), (''6'', 6),
             (''7'', 7), (''8'', 8), (''9'', 9)]"





definition undated_file :: "string list list" where
  "undated_file =
     [[''Date'', ''Time'', ''Open'', ''High'', ''Low'', ''Close'', ''TickVol'', ''Vol'', ''Spread''],
      ['''', ''10:00'', ''1'', ''3'', ''1'', ''2'', ''7'', ''0'', ''2'']]"

section \<open>Properties of the two-pass fill\<close>



lemma isna_iff: "isna x \<longleftrightarrow> x = NA"
  by (cases x) simp_all

lemma length_ffill_from: "length (ffill_from prev xs) = length xs"
  by (induction xs arbitrary: prev) simp_all

lemma length_bfill_col: "length (bfill_col xs) = length xs"
  by (induction xs) (simp_all add: Let_def)

lemma ffill_from_keeps: "i < length xs \<Longrightarrow> \<not> isna (xs ! i) \<Longrightarrow> ffill_from prev xs ! i = xs ! i"
proof (induction xs arbitrary: prev i)
  case Nil
  then show ?case by simp
next
  case (Cons x xs)
  then show ?case by (cases i) simp_all
qed

lemma bfill_col_keeps: "i < length xs \<Longrightarrow> \<not> isna (xs ! i) \<Longrightarrow> bfill_col xs ! i = xs ! i"
proof (induction xs arbitrary: i)
  case Nil
  then show ?case by simp
next
  case (Cons x xs)
  then show ?case by (cases i) (simp_all add: Let_def)
qed

lemma ffill_from_no_na: "\<not> isna prev \<Longrightarrow> \<forall>y \<in> set (ffill_from prev xs). \<not> isna y"
  by (induction xs arbitrary: prev) simp_all

lemma ffill_from_id: "\<forall>x \<in> set xs. \<not> isna x \<Longrightarrow> ffill_from prev xs = xs"
  by (induction xs arbitrary: prev) simp_all

lemma ffill_from_all_na: "\<forall>x \<in> set xs. isna x \<Longrightarrow> ffill_from NA xs = xs"
  by (induction xs) (simp_all add: isna_iff)

lemma bfill_col_id: "\<forall>x \<in> set xs. \<not> isna x \<Longrightarrow> bfill_col xs = xs"
  by (induction xs) (simp_all add: Let_def)

lemma bfill_col_all_na: "\<forall>x \<in> set xs. isna x \<Longrightarrow> bfill_col xs = xs"
  by (induction xs) (auto simp: Let_def isna_iff split: list.splits)

lemma ffill_from_last:
  "\<exists>x \<in> set xs. \<not> isna x \<Longrightarrow> \<not> isna (last (ffill_from prev xs))"
proof (induction xs arbitrary: prev)
  case Nil
  then show ?case by simp
next
  case (Cons x xs)
  show ?case
  proof (cases "isna x")
    case True
    with Cons.prems have ex: "\<exists>y \<in> set xs. \<not> isna y" by auto
    then have "xs \<noteq> []" by auto
    then have "ffill_from prev xs \<noteq> []"
      using length_ffill_from [of prev xs] by auto
    with True Cons.IH [OF ex, of prev] show ?thesis by simp
  next
    case False
    have "\<forall>y \<in> set (x # ffill_from x xs). \<not> isna y"
      using False ffill_from_no_na [of x xs] by simp
    then have "\<not> isna (last (x # ffill_from x xs))"
      using last_in_set [of "x # ffill_from x xs"] by blast
    with False show ?thesis by simp
  qed
qed

lemma bfill_col_no_na:
  "xs \<noteq> [] \<Longrightarrow> \<not> isna (last xs) \<Longrightarrow> \<forall>y \<in> set (bfill_col xs). \<not> isna y"
proof (induction xs)
  case Nil
  then show ?case by simp
next
  case (Cons x xs)
  show ?case
  proof (cases "xs = []")
    case True
    with Cons.prems show ?thesis by simp
  next
    case False
    with Cons have ih: "\<forall>y \<in> set (bfill_col xs). \<not> isna y" by simp
    from False have "bfill_col xs \<noteq> []"
      using length_bfill_col [of xs] by auto
    then obtain y ys where r: "bfill_col xs = y # ys" by (cases "bfill_col xs") auto
    with ih have "\<not> isna y" by simp
    with ih r show ?thesis by (simp add: Let_def)
  qed
qed


lemma fill_col_no_na:
  assumes "\<exists>x \<in> set xs. \<not> isna x"
  shows "\<forall>y \<in> set (fill_col xs). \<not> isna y"
proof -
  from assms have "xs \<noteq> []" by auto
  then have ne: "ffill_col xs \<noteq> []"
    using length_ffill_from [of NA xs] by (auto simp: ffill_col_def)
  have "\<not> isna (last (ffill_col xs))"
    using ffill_from_last [OF assms] by (simp add: ffill_col_def)
  with ne show ?thesis
    unfolding fill_col_def by (rule bfill_col_no_na)
qed

lemma fill_col_all_na: "\<forall>x \<in> set xs. isna x \<Longrightarrow> fill_col xs = xs"
  by (simp add: fill_col_def ffill_col_def ffill_from_all_na bfill_col_all_na)

lemma fill_col_id: "\<forall>x \<in> set xs. \<not> isna x \<Longrightarrow> fill_col xs = xs"
  by (simp add: fill_col_def ffill_col_def ffill_from_id bfill_col_id)

lemma fill_col_idem: "fill_col (fill_col xs) = fill_col xs"
proof (cases "\<exists>x \<in> set xs. \<not> isna x")
  case True
  then show ?thesis by (intro fill_col_id fill_col_no_na)
next
  case False
  then have "\<forall>x \<in> set xs. isna x" by simp
  then show ?thesis by (simp add: fill_col_all_na)
qed

lemma length_fill_col: "length (fill_col xs) = length xs"
  by (simp add: fill_col_def ffill_col_def length_bfill_col length_ffill_from)

lemma fill_col_keeps: "i < length xs \<Longrightarrow> \<not> isna (xs ! i) \<Longrightarrow> fill_col xs ! i = xs ! i"
  by (simp add: fill_col_def ffill_col_def bfill_col_keeps ffill_from_keeps length_ffill_from)


lemma filter_columns_to_drop:
  "filter (\<lambda>(name, col). name \<notin> set (filter (\<lambda>c. c \<noteq> k) (map fst cs))) cs
     = filter (\<lambda>(name, col). name = k) cs"
  by (rule filter_cong) (auto simp: image_iff)

lemma filter_key_distinct:
  "distinct (map fst cs) \<Longrightarrow> map_of cs k = Some v \<Longrightarrow> filter (\<lambda>(name, col). name = k) cs = [(k, v)]"
proof (induction cs)
  case Nil
  then show ?case by simp
next
  case (Cons c cs)
  obtain n col where c: "c = (n, col)" by (cases c)
  show ?case
  proof (cases "n = k")
    case True
    with Cons.prems c have "k \<notin> fst ` set cs" and "col = v" by auto
    then have "filter (\<lambda>(name, col). name = k) cs = []"
      by (auto simp: filter_empty_conv image_iff)
    with True c \<open>col = v\<close> show ?thesis by simp
  next
    case False
    with Cons c show ?thesis by simp
  qed
qed

lemma map_of_filter_key: "map_of (filter (\<lambda>(name, col). name = k) cs) k = map_of cs k"
  by (induction cs) auto

lemma drop_columns_keep_only:
  "drop_columns df (filter (\<lambda>col. col \<noteq> k) (column_names df)) = keep_only df k"
  by (simp only: drop_columns_def column_names_def filter_columns_to_drop keep_only_def)

lemma bfill_ffill: "bfill (ffill df) = fill_table df"
  by (simp add: bfill_def ffill_def fill_table_def fill_col_def case_prod_beta comp_def)

lemma drop_all_except_eq:
  assumes "df < length st"
  shows "drop_all_except st df k =
     (st[df := keep_only (st ! df) k] @ [fill_table (keep_only (st ! df) k)], length st)"
  using assms
  by (simp add: drop_all_except_def alloc_def drop_columns_keep_only bfill_ffill Let_def)

lemma fill_table_idem: "fill_table (fill_table df) = fill_table df"
  by (simp add: fill_table_def fill_col_idem case_prod_beta comp_def)

lemma filter_map_fill:
  "filter (\<lambda>(name, col). name = k) (map (\<lambda>(name, col). (name, fill_col col)) cs)
     = map (\<lambda>(name, col). (name, fill_col col)) (filter (\<lambda>(name, col). name = k) cs)"
  by (induction cs) auto

lemma keep_only_fill_table: "keep_only (fill_table df) k = fill_table (keep_only df k)"
  by (simp add: fill_table_def keep_only_def filter_map_fill del: filter_map)

lemma keep_only_idem: "keep_only (keep_only df k) k = keep_only df k"
  by (simp add: keep_only_def)

lemma index_keep_only: "index (keep_only df k) = index df"
  by (simp add: keep_only_def)

lemma index_fill_table: "index (fill_table df) = index df"
  by (simp add: fill_table_def)

lemma columns_keep_only_distinct:
  "distinct (column_names df) \<Longrightarrow> column_of df k = Some old \<Longrightarrow> columns (keep_only df k) = [(k, old)]"
  by (simp add: keep_only_def column_names_def column_of_def filter_key_distinct)

section \<open>Properties of the adapters\<close>

lemma get_yfinance_data_eq:
  "get_yfinance_data history d =
     rename (if d then keep_only history ''Close'' else history) ''Close'' ''Price''"
  by (simp add: get_yfinance_data_def alloc_def drop_all_except_eq)













lemmas csv_defs = get_csv_data_def read_csv_def pad_row_def column_cells_def na_values_def
  digit_number_def set_columns_def daily_schema_def intraday_schema_def get_column_def
  column_of_def set_datetime_index_def add_text_def object_dtype_def upt_rec Let_def

lemma get_csv_data_undated:
  "get_csv_data digit_number text_stamp (Some undated_file) False True = Inl TypeError"
  by (simp add: csv_defs undated_file_def)


section \<open>Properties of the double arithmetic\<close>

lemma exp_up_numeral:
  "exp_up x (numeral k) = (if 2 \<le> x then Suc (exp_up (x / 2) (pred_numeral k)) else 0)"
  by (simp add: numeral_eq_Suc)

lemma exp_down_numeral:
  "exp_down x (numeral k) = (if x < 1 then Suc (exp_down (x * 2) (pred_numeral k)) else 0)"
  by (simp add: numeral_eq_Suc)

lemmas float_defs = fl_def quantum_def exp_up_numeral exp_down_numeral round_half_even_def
  fsub_def fdiv_def Let_def

lemma exp_up_le: "exp_up x n \<le> n"
  by (induction n arbitrary: x) simp_all

lemma exp_down_le: "exp_down x n \<le> n"
  by (induction n arbitrary: x) simp_all

lemma exp_up_power: "1 \<le> x \<Longrightarrow> 2 ^ exp_up x n \<le> x"
proof (induction n arbitrary: x)
  case 0
  then show ?case by simp
next
  case (Suc n)
  show ?case
  proof (cases "2 \<le> x")
    case True
    then have "1 \<le> x / 2" by simp
    from Suc.IH [OF this] have "2 * 2 ^ exp_up (x / 2) n \<le> x" by simp
    with True show ?thesis by simp
  next
    case False
    with Suc.prems show ?thesis by simp
  qed
qed

lemma exp_down_power: "1 \<le> x * 2 ^ exp_down x n \<or> exp_down x n = n"
proof (induction n arbitrary: x)
  case 0
  then show ?case by simp
next
  case (Suc n)
  show ?case
  proof (cases "x < 1")
    case True
    from Suc.IH [of "x * 2"] True show ?thesis by (auto simp: mult.assoc)
  next
    case False
    then show ?thesis by simp
  qed
qed

lemma quantum_grid: "\<exists>j::nat. quantum x = 2 ^ j / 2 ^ 1074"
proof (cases "1 \<le> \<bar>x\<bar>")
  case True
  have "(2::real) ^ exp_up \<bar>x\<bar> 1024 / 2 ^ 52 = 2 ^ (exp_up \<bar>x\<bar> 1024 + 1022) / 2 ^ 1074"
    by (simp add: power_add)
  with True show ?thesis unfolding quantum_def by auto
next
  case False
  let ?k = "exp_down \<bar>x\<bar> 1022"
  have k: "?k \<le> 1022" by (rule exp_down_le)
  have "(2::real) ^ 1074 = 2 ^ (1022 - ?k) * (2 ^ ?k * 2 ^ 52)"
    using k by (simp add: power_add [symmetric])
  then have "1 / ((2::real) ^ ?k * 2 ^ 52) = 2 ^ (1022 - ?k) / 2 ^ 1074"
    by (simp add: field_simps)
  with False show ?thesis unfolding quantum_def by auto
qed

lemma quantum_pos: "0 < quantum x"
proof -
  obtain j :: nat where q: "quantum x = 2 ^ j / 2 ^ 1074"
    using quantum_grid by blast
  have "(0::real) < 2 ^ j / 2 ^ 1074"
    by (intro divide_pos_pos zero_less_power) simp_all
  then show ?thesis by (simp only: q)
qed

lemma is_double_grid:
  assumes "is_double x"
  shows "\<exists>m::int. x = of_int m / 2 ^ 1074"
proof (cases "x = 0")
  case True
  then show ?thesis by (intro exI [of _ 0]) simp
next
  case False
  obtain j :: nat where q: "quantum x = 2 ^ j / 2 ^ 1074"
    using quantum_grid by blast
  from assms False have "x = of_int (round_half_even (x / quantum x)) * quantum x"
    by (auto simp: is_double_def fl_def Let_def split: if_splits)
  then have "x = of_int (round_half_even (x / quantum x) * 2 ^ j) / 2 ^ 1074"
    by (simp add: q)
  then show ?thesis by blast
qed

lemma round_half_even_ge: "1 \<le> z \<Longrightarrow> 1 \<le> round_half_even z"
proof -
  assume "1 \<le> z"
  then have "1 \<le> \<lfloor>z\<rfloor>" by simp
  then show ?thesis by (simp add: round_half_even_def Let_def)
qed

lemma quantum_le:
  assumes "1 / 2 ^ 1074 \<le> y"
  shows "1 \<le> y / quantum y"
proof (cases "1 \<le> \<bar>y\<bar>")
  case True
  from assms have y: "0 < y" by (rule less_le_trans [rotated]) simp
  with True have "2 ^ exp_up y 1024 \<le> y" by (intro exp_up_power) simp
  also have "y \<le> y * 2 ^ 52" using y by simp
  finally have "2 ^ exp_up y 1024 / 2 ^ 52 \<le> y" by (simp add: field_simps)
  moreover have "quantum y = 2 ^ exp_up y 1024 / 2 ^ 52"
    using True y by (simp add: quantum_def)
  ultimately show ?thesis using quantum_pos [of y] by (simp add: field_simps)
next
  case False
  from assms have y: "0 < y" by (rule less_le_trans [rotated]) simp
  let ?k = "exp_down y 1022"
  have q: "quantum y = 1 / (2 ^ ?k * 2 ^ 52)"
    using False y by (simp add: quantum_def)
  have "1 \<le> y * 2 ^ ?k * 2 ^ 52"
  proof (cases "1 \<le> y * 2 ^ ?k")
    case True
    have "(1::real) \<le> 2 ^ 52" by simp
    with True have "1 * 1 \<le> (y * 2 ^ ?k) * 2 ^ 52"
      by (intro mult_mono) simp_all
    then show ?thesis by simp
  next
    case False
    with exp_down_power [of y 1022] have k: "?k = 1022" by simp
    have "y * 2 ^ 1022 * 2 ^ 52 = y * 2 ^ 1074"
      by (simp add: power_add [symmetric] mult.assoc)
    moreover from assms have "1 \<le> y * 2 ^ 1074" by (simp add: field_simps)
    ultimately show ?thesis by (simp only: k)
  qed
  then show ?thesis by (simp add: q)
qed

lemma fl_nonzero:
  assumes "1 / 2 ^ 1074 \<le> y"
  shows "fl y \<noteq> Val 0"
proof -
  from assms have y: "0 < y" by (rule less_le_trans [rotated]) simp
  have "1 \<le> round_half_even (y / quantum y)"
    by (intro round_half_even_ge quantum_le assms)
  then have "(0::real) < of_int (round_half_even (y / quantum y))" by simp
  then have "0 < of_int (round_half_even (y / quantum y)) * quantum y"
    using quantum_pos [of y] by simp
  with y show ?thesis by (auto simp: fl_def Let_def)
qed

lemma doubles_differ:
  assumes "is_double a" and "is_double b" and "a < b"
  shows "fl (b - a) \<noteq> Val 0"
proof -
  from is_double_grid [OF assms(1)] obtain m :: int where a: "a = of_int m / 2 ^ 1074" by blast
  from is_double_grid [OF assms(2)] obtain n :: int where b: "b = of_int n / 2 ^ 1074" by blast
  from assms(3) a b have "m < n" by (simp add: divide_less_cancel)
  then have "1 \<le> n - m" by simp
  then have "(1::real) \<le> of_int (n - m)" by (simp only: of_int_1_le_iff)
  then have "1 / 2 ^ 1074 \<le> (of_int (n - m) :: real) / 2 ^ 1074"
    by (simp add: divide_right_mono)
  also have "\<dots> = b - a" by (simp add: a b diff_divide_distrib)
  finally show ?thesis by (rule fl_nonzero)
qed

lemma fsub_nonzero:
  assumes "is_float lo" and "is_float hi" and "flt lo hi"
  shows "fsub hi lo \<noteq> Val 0"
proof (cases lo)
  case (Val a)
  show ?thesis
  proof (cases hi)
    case (Val b)
    with \<open>lo = Val a\<close> assms have "is_double a" "is_double b" "a < b" by simp_all
    from doubles_differ [OF this] Val \<open>lo = Val a\<close> show ?thesis
      by (simp add: fsub_def)
  qed (use Val assms in \<open>simp_all add: fsub_def\<close>)
qed (use assms in \<open>cases hi; simp add: fsub_def\<close>)+

lemma flt_asym: "flt a b \<Longrightarrow> flt b c \<Longrightarrow> \<not> flt c a"
  by (cases a; cases b; cases c) simp_all



section \<open>The claims\<close>

text \<open>
  C1 (the code departs from it). With the reduce flag set, the series an adapter returns
  should have no missing price when the raw input has a price. The vendor adapter calls
  the reducer and goes on with the frame it passed in, which the reducer has only cut
  down to one column: on bars whose \<open>Close\<close> column is missing in rows 0 and 2, the
  returned \<open>Price\<close> column is still missing in rows 0 and 2. The platform adapter
  does the same: a missing \<open>close\<close> in row 1 is a missing \<open>Price\<close> in row 1.
\<close>

theorem adapters_keep_gaps:
  "get_yfinance_data bars_with_gaps True
     = \<lparr>index = [0, 1, 2, 3], columns = [(''Price'', [NA, Num 1, NA, Num 3])]\<rparr> \<and>
   get_mt5_data (\<lambda>sym bar (s::nat) e. None) (\<lambda>sym bar s e. Some platform_rates) epoch_stamp
       True ''EURUSD'' ''M1'' None None (Some 0) (Some 3) True
     = Inr (Some \<lparr>index = [0, 60, 120], columns = [(''Price'', [Num 1, NA, Num 3])]\<rparr>)"
proof
  show "get_yfinance_data bars_with_gaps True
     = \<lparr>index = [0, 1, 2, 3], columns = [(''Price'', [NA, Num 1, NA, Num 3])]\<rparr>"
    by (simp add: get_yfinance_data_eq keep_only_def rename_def bars_with_gaps_def)
  have t: "timeframes ''M1'' = Some TIMEFRAME_M1"
    by (simp add: timeframes_def)
  show "get_mt5_data (\<lambda>sym bar (s::nat) e. None) (\<lambda>sym bar s e. Some platform_rates) epoch_stamp
       True ''EURUSD'' ''M1'' None None (Some 0) (Some 3) True
     = Inr (Some \<lparr>index = [0, 60, 120], columns = [(''Price'', [Num 1, NA, Num 3])]\<rparr>)"
    by (simp add: get_mt5_data_def t DataFrame_def get_column_def column_of_def platform_rates_def
        set_datetime_index_def alloc_def drop_all_except_eq keep_only_def rename_def)
qed

text \<open>
  C2 (the code departs from it). The fill should take the next later value first. The
  reducer runs the forward pass first: in the column \<open>1, missing, 3\<close> the missing entry
  has the later value 3 and is filled with the earlier value 1.
\<close>

theorem drop_all_except_forward_first:
  "(case drop_all_except
           [\<lparr>index = [0::nat, 1, 2], columns = [(''Price'', [Num 1, NA, Num 3])]\<rparr>] 0 ''Price'' of
      (st', res) \<Rightarrow> columns (st' ! res)) = [(''Price'', [Num 1, Num 1, Num 3])]"
  by (simp add: drop_all_except_eq keep_only_def fill_table_def fill_col_def ffill_col_def)

text \<open>
  C3. For a frame with distinct column labels that has the column \<open>keep_column\<close>, the
  frame \<open>drop_all_except\<close> returns has the row index of the input, the one column
  \<open>keep_column\<close> with as many cells as before, every cell that was present unchanged,
  and no missing cell unless every cell was missing, in which case the column is as it
  was. A column with no rows gives a column with no rows.
\<close>

theorem drop_all_except_single_filled_column:
  assumes "df < length st"
    and "distinct (column_names (st ! df))"
    and "column_of (st ! df) keep_column = Some old"
  shows "case drop_all_except st df keep_column of
           (st', res) \<Rightarrow>
             index (st' ! res) = index (st ! df) \<and>
             nrows (st' ! res) = nrows (st ! df) \<and>
             columns (st' ! res) = [(keep_column, fill_col old)] \<and>
             length (fill_col old) = length old \<and>
             (\<forall>i < length old. \<not> isna (old ! i) \<longrightarrow> fill_col old ! i = old ! i) \<and>
             (if \<forall>x \<in> set old. isna x then fill_col old = old
              else \<forall>y \<in> set (fill_col old). \<not> isna y) \<and>
             (old = [] \<longrightarrow> columns (st' ! res) = [(keep_column, [])])"
proof -
  have c: "columns (fill_table (keep_only (st ! df) keep_column)) = [(keep_column, fill_col old)]"
    using columns_keep_only_distinct [OF assms(2,3)] by (simp add: fill_table_def)
  have fill: "if \<forall>x \<in> set old. isna x then fill_col old = old
              else \<forall>y \<in> set (fill_col old). \<not> isna y"
    using fill_col_all_na [of old] fill_col_no_na [of old] by auto
  have e: "fill_col [] = []"
    by (simp add: fill_col_def ffill_col_def)
  have r: "drop_all_except st df keep_column =
      (st[df := keep_only (st ! df) keep_column]
         @ [fill_table (keep_only (st ! df) keep_column)], length st)"
    by (rule drop_all_except_eq [OF assms(1)])
  have len: "length (st[df := keep_only (st ! df) keep_column]) = length st"
    by simp
  have i: "index (fill_table (keep_only (st ! df) keep_column)) = index (st ! df)"
    by (simp only: index_fill_table index_keep_only)
  have k: "\<forall>i < length old. \<not> isna (old ! i) \<longrightarrow> fill_col old ! i = old ! i"
    by (simp add: fill_col_keeps)
  show ?thesis
    unfolding r prod.case nth_append_length [of "st[df := keep_only (st ! df) keep_column]", unfolded len]
      nrows_def i c
    using fill e k length_fill_col [of old] by blast
qed

theorem drop_all_except_single_filled_column_witness:
  "(0::nat) < length [bars_with_gaps] \<and>
   distinct (column_names ([bars_with_gaps] ! 0)) \<and>
   column_of ([bars_with_gaps] ! 0) ''Close'' = Some [NA, Num 1, NA, Num 3] \<and>
   (case drop_all_except [bars_with_gaps] 0 ''Close'' of
      (st', res) \<Rightarrow>
        index (st' ! res) = [0, 1, 2, 3] \<and>
        columns (st' ! res) = [(''Close'', [Num 1, Num 1, Num 1, Num 3])])"
proof -
  have h1: "(0::nat) < length [bars_with_gaps]" by simp
  have h2: "distinct (column_names ([bars_with_gaps] ! 0))"
    by (simp add: column_names_def bars_with_gaps_def)
  have h3: "column_of ([bars_with_gaps] ! 0) ''Close'' = Some [NA, Num 1, NA, Num 3]"
    by (simp add: column_of_def bars_with_gaps_def)
  have f: "fill_col [NA, Num 1, NA, Num 3] = [Num 1, Num 1, Num 1, Num 3]"
    by (simp add: fill_col_def ffill_col_def)
  have i: "index bars_with_gaps = [0, 1, 2, 3]"
    by (simp add: bars_with_gaps_def)
  show ?thesis
    using drop_all_except_single_filled_column [OF h1 h2 h3] h1 h2 h3
    by (auto simp: f i split: prod.splits)
qed

text \<open>
  C4. \<open>drop_all_except\<close> changes the caller's frame only by removing the columns with
  another label than \<open>keep_column\<close>: every other object of the store is as before, the
  caller's frame keeps its row index and its \<open>keep_column\<close> cells, missing ones
  included, and the filled frame is a new object.
\<close>

theorem drop_all_except_frame:
  assumes "df < length st"
  shows "case drop_all_except st df keep_column of
           (st', res) \<Rightarrow>
             res \<noteq> df \<and> length st' = Suc (length st) \<and>
             (\<forall>r < length st. r \<noteq> df \<longrightarrow> st' ! r = st ! r) \<and>
             index (st' ! df) = index (st ! df) \<and>
             columns (st' ! df) =
               filter (\<lambda>(name, col). name = keep_column) (columns (st ! df)) \<and>
             column_of (st' ! df) keep_column = column_of (st ! df) keep_column \<and>
             (distinct (column_names (st ! df)) \<and> column_of (st ! df) keep_column = Some old \<longrightarrow>
                columns (st' ! df) = [(keep_column, old)]) \<and>
             st' ! res = bfill (ffill (st' ! df))"
  using assms columns_keep_only_distinct [of "st ! df" keep_column old]
  by (simp add: drop_all_except_eq [OF assms] nth_append column_of_def map_of_filter_key
      bfill_ffill keep_only_def)

theorem drop_all_except_frame_witness:
  "(0::nat) < length [bars_with_gaps] \<and>
   distinct (column_names ([bars_with_gaps] ! 0)) \<and>
   column_of ([bars_with_gaps] ! 0) ''Close'' = Some [NA, Num 1, NA, Num 3] \<and>
   (case drop_all_except [bars_with_gaps] 0 ''Close'' of
      (st', res) \<Rightarrow>
        res \<noteq> 0 \<and> columns (st' ! 0) = [(''Close'', [NA, Num 1, NA, Num 3])])"
proof -
  have h1: "(0::nat) < length [bars_with_gaps]" by simp
  have h2: "distinct (column_names ([bars_with_gaps] ! 0))"
    by (simp add: column_names_def bars_with_gaps_def)
  have h3: "column_of ([bars_with_gaps] ! 0) ''Close'' = Some [NA, Num 1, NA, Num 3]"
    by (simp add: column_of_def bars_with_gaps_def)
  show ?thesis
    using drop_all_except_frame [OF h1, of "''Close''" "[NA, Num 1, NA, Num 3]"] h1 h2 h3
    by (auto split: prod.splits)
qed

text \<open>
  C5. When the vendor returns a frame with no rows, \<open>get_yfinance_data\<close> returns a
  frame with no rows, with the reduce flag set or not; the adapter has no path that
  raises or returns \<open>None\<close>.
\<close>

theorem get_yfinance_data_zero_rows:
  assumes "nrows history = 0" and "\<forall>c \<in> set (columns history). snd c = []"
  shows "nrows (get_yfinance_data history drop_other_column) = 0 \<and>
         (\<forall>c \<in> set (columns (get_yfinance_data history drop_other_column)). snd c = [])"
  using assms
  by (auto simp: get_yfinance_data_eq nrows_def rename_def keep_only_def)

theorem get_yfinance_data_zero_rows_witness:
  "nrows no_bars = 0 \<and> map snd (columns no_bars) = [[], []] \<and>
   nrows (get_yfinance_data no_bars True) = 0 \<and>
   map snd (columns (get_yfinance_data no_bars True)) = [[]]"
proof -
  have h1: "nrows no_bars = 0" by (simp add: nrows_def no_bars_def)
  have h2: "\<forall>c \<in> set (columns no_bars). snd c = []" by (simp add: no_bars_def)
  have c: "column_names (get_yfinance_data no_bars True) = [''Price'']"
    by (simp add: get_yfinance_data_eq keep_only_def rename_def no_bars_def column_names_def)
  then obtain col where k: "columns (get_yfinance_data no_bars True) = [(''Price'', col)]"
    by (auto simp: column_names_def map_eq_Cons_conv)
  from get_yfinance_data_zero_rows [OF h1 h2, of True] k have "col = []" by simp
  with k get_yfinance_data_zero_rows [OF h1 h2, of True] h1 show ?thesis
    by (simp add: no_bars_def)
qed




text \<open>
  C7. \<open>get_mt5_data\<close> returns \<open>None\<close> and does not raise: whenever \<open>authorized\<close> is
  false; whenever the timeframe code is not one of the 21 codes of the table; whenever
  neither both dates nor both positions are given.
\<close>

theorem get_mt5_data_guards:
  "get_mt5_data copy_rates_range copy_rates_from_pos parse
      False symbol timeframe start_date end_date start_pos end_pos drop_other_column = Inr None \<and>
   (timeframe \<notin> {''M1'', ''M2'', ''M3'', ''M4'', ''M5'', ''M6'', ''M10'', ''M12'', ''M15'', ''M20'',
                  ''M30'', ''H1'', ''H2'', ''H3'', ''H4'', ''H6'', ''H8'', ''H12'', ''D1'', ''W1'', ''MN1''} \<longrightarrow>
    get_mt5_data copy_rates_range copy_rates_from_pos parse
      authorized symbol timeframe start_date end_date start_pos end_pos drop_other_column = Inr None) \<and>
   ((start_date = None \<or> end_date = None) \<and> (start_pos = None \<or> end_pos = None) \<longrightarrow>
    get_mt5_data copy_rates_range copy_rates_from_pos parse
      authorized symbol timeframe start_date end_date start_pos end_pos drop_other_column = Inr None)"
proof (intro conjI impI)
  show "get_mt5_data copy_rates_range copy_rates_from_pos parse
      False symbol timeframe start_date end_date start_pos end_pos drop_other_column = Inr None"
    by (simp add: get_mt5_data_def)
next
  assume "timeframe \<notin> {''M1'', ''M2'', ''M3'', ''M4'', ''M5'', ''M6'', ''M10'', ''M12'', ''M15'', ''M20'',
                  ''M30'', ''H1'', ''H2'', ''H3'', ''H4'', ''H6'', ''H8'', ''H12'', ''D1'', ''W1'', ''MN1''}"
  then have "timeframes timeframe = None"
    by (simp add: timeframes_def)
  then show "get_mt5_data copy_rates_range copy_rates_from_pos parse
      authorized symbol timeframe start_date end_date start_pos end_pos drop_other_column = Inr None"
    by (simp add: get_mt5_data_def)
next
  assume "(start_date = None \<or> end_date = None) \<and> (start_pos = None \<or> end_pos = None)"
  then show "get_mt5_data copy_rates_range copy_rates_from_pos parse
      authorized symbol timeframe start_date end_date start_pos end_pos drop_other_column = Inr None"
    by (auto simp: get_mt5_data_def split: option.splits)
qed

theorem get_mt5_data_guards_witness:
  "''X1'' \<notin> {''M1'', ''M2'', ''M3'', ''M4'', ''M5'', ''M6'', ''M10'', ''M12'', ''M15'', ''M20'',
              ''M30'', ''H1'', ''H2'', ''H3'', ''H4'', ''H6'', ''H8'', ''H12'', ''D1'', ''W1'', ''MN1''} \<and>
   get_mt5_data (\<lambda>sym bar (s::nat) e. Some [(''time'', [Num 0]), (''close'', [Num 1])])
      (\<lambda>sym bar s e. Some [(''time'', [Num 0]), (''close'', [Num 1])]) text_stamp
      True ''EURUSD'' ''X1'' (Some 0) (Some 1) None None True = Inr None \<and>
   ((None::nat option) = None \<or> Some (1::nat) = None) \<and> (Some (0::int) = None \<or> (None::int option) = None) \<and>
   get_mt5_data (\<lambda>sym bar (s::nat) e. Some [(''time'', [Num 0]), (''close'', [Num 1])])
      (\<lambda>sym bar s e. Some [(''time'', [Num 0]), (''close'', [Num 1])]) text_stamp
      True ''EURUSD'' ''H1'' None (Some 1) (Some 0) None True = Inr None"
proof -
  have a: "''X1'' \<notin> {''M1'', ''M2'', ''M3'', ''M4'', ''M5'', ''M6'', ''M10'', ''M12'', ''M15'', ''M20'',
              ''M30'', ''H1'', ''H2'', ''H3'', ''H4'', ''H6'', ''H8'', ''H12'', ''D1'', ''W1'', ''MN1''}"
    by simp
  have b: "((None::nat option) = None \<or> Some (1::nat) = None) \<and>
           (Some (0::int) = None \<or> (None::int option) = None)"
    by simp
  have t: "get_mt5_data (\<lambda>sym bar (s::nat) e. Some [(''time'', [Num 0]), (''close'', [Num 1])])
      (\<lambda>sym bar s e. Some [(''time'', [Num 0]), (''close'', [Num 1])]) text_stamp
      True ''EURUSD'' ''X1'' (Some 0) (Some 1) None None True = Inr None"
    by (rule get_mt5_data_guards [THEN conjunct2, THEN conjunct1, THEN mp, OF a])
  have r: "get_mt5_data (\<lambda>sym bar (s::nat) e. Some [(''time'', [Num 0]), (''close'', [Num 1])])
      (\<lambda>sym bar s e. Some [(''time'', [Num 0]), (''close'', [Num 1])]) text_stamp
      True ''EURUSD'' ''H1'' None (Some 1) (Some 0) None True = Inr None"
    by (rule get_mt5_data_guards [THEN conjunct2, THEN conjunct2, THEN mp, OF b])
  from a t b r show ?thesis
    by (intro conjI) (erule conjunct1 conjunct2 | assumption)+
qed

text \<open>
  The claim C8 as stated fails at the bounds of the source range, where the guards of
  \<open>scale\<close> do not fire and the value goes through the interpolation: for \<open>v = hi = 99\<close>
  and the destination range from \<open>-1\<close> to the double \<open>0.3\<close> the result is the next
  double above \<open>0.3\<close>, and for \<open>v = lo\<close> with a destination range whose width
  overflows it is not-a-number.
\<close>

theorem scale_at_the_bounds:
  "scale (Val 99) [Val 0, Val 99] [Val (- 1), Val (5404319552844595 / 18014398509481984)]
     = Inr (Val (1351079888211149 / 4503599627370496)) \<and>
   scale (Val 0) [Val 0, Val 1] [Val (- (2 ^ 1023)), Val (2 ^ 1023)] = Inr Nan"
proof
  show "scale (Val 99) [Val 0, Val 99] [Val (- 1), Val (5404319552844595 / 18014398509481984)]
     = Inr (Val (1351079888211149 / 4503599627370496))"
    by (simp add: scale_def item_def float_defs)
  show "scale (Val 0) [Val 0, Val 1] [Val (- (2 ^ 1023)), Val (2 ^ 1023)] = Inr Nan"
    by (simp add: scale_def item_def float_defs)
qed

text \<open>
  C8 (amended). \<open>scale\<close> returns \<open>dlo\<close> for every \<open>v < lo\<close> and, for a source range
  with \<open>lo < hi\<close>, \<open>dhi\<close> for every \<open>v > hi\<close>; for every other \<open>v\<close> and floats
  \<open>lo < hi\<close> it returns the proportional interpolation
  \<open>((v - lo) / (hi - lo)) * (dhi - dlo) + dlo\<close> computed in double arithmetic, and does
  not raise. \<open>scale(0, (0, 99), (-1, 1))\<close> is \<open>-1\<close> and
  \<open>scale(50, (0, 100), (0, 1))\<close> is \<open>0.5\<close>.
\<close>

theorem scale_clamps_and_interpolates:
  "(flt v lo \<longrightarrow> scale v [lo, hi] [dlo, dhi] = Inr dlo) \<and>
   (flt lo hi \<and> flt hi v \<longrightarrow> scale v [lo, hi] [dlo, dhi] = Inr dhi) \<and>
   (is_float lo \<and> is_float hi \<and> flt lo hi \<and> \<not> flt v lo \<and> \<not> flt hi v \<longrightarrow>
      scale v [lo, hi] [dlo, dhi] =
        Inr (fadd (fmul (fquot (fsub v lo) (fsub hi lo)) (fsub dhi dlo)) dlo)) \<and>
   scale (Val 0) [Val 0, Val 99] [Val (- 1), Val 1] = Inr (Val (- 1)) \<and>
   scale (Val 50) [Val 0, Val 100] [Val 0, Val 1] = Inr (Val (1 / 2))"
proof (intro conjI impI)
  show "scale v [lo, hi] [dlo, dhi] = Inr dlo" if "flt v lo"
    using that by (simp add: scale_def item_def)
  show "scale v [lo, hi] [dlo, dhi] = Inr dhi" if "flt lo hi \<and> flt hi v"
    using that flt_asym [of lo hi v] by (simp add: scale_def item_def)
  show "scale v [lo, hi] [dlo, dhi] =
        Inr (fadd (fmul (fquot (fsub v lo) (fsub hi lo)) (fsub dhi dlo)) dlo)"
    if "is_float lo \<and> is_float hi \<and> flt lo hi \<and> \<not> flt v lo \<and> \<not> flt hi v"
    using that fsub_nonzero [of lo hi] by (simp add: scale_def item_def fdiv_def)
  show "scale (Val 0) [Val 0, Val 99] [Val (- 1), Val 1] = Inr (Val (- 1))"
    by (simp add: scale_def item_def float_defs)
  show "scale (Val 50) [Val 0, Val 100] [Val 0, Val 1] = Inr (Val (1 / 2))"
    by (simp add: scale_def item_def float_defs)
qed

theorem scale_clamps_and_interpolates_witness:
  "flt (Val (- 5)) (Val 0) \<and>
   scale (Val (- 5)) [Val 0, Val 100] [Val 0, Val 1] = Inr (Val 0) \<and>
   flt (Val 0) (Val 100) \<and> flt (Val 100) (Val 150) \<and>
   scale (Val 150) [Val 0, Val 100] [Val 0, Val 1] = Inr (Val 1) \<and>
   is_float (Val 0) \<and> is_float (Val 100) \<and>
   \<not> flt (Val 25) (Val 0) \<and> \<not> flt (Val 100) (Val 25) \<and>
   scale (Val 25) [Val 0, Val 100] [Val 0, Val 1] = Inr (Val (1 / 4))"
proof -
  have a: "flt (Val (- 5)) (Val 0)" by simp
  have b: "flt (Val 0) (Val 100) \<and> flt (Val 100) (Val 150)" by simp
  have c: "is_float (Val 0) \<and> is_float (Val 100) \<and> flt (Val 0) (Val 100) \<and>
           \<not> flt (Val 25) (Val 0) \<and> \<not> flt (Val 100) (Val 25)"
    by (simp add: is_double_def float_defs)
  have e: "fadd (fmul (fquot (fsub (Val 25) (Val 0)) (fsub (Val 100) (Val 0)))
             (fsub (Val 1) (Val 0))) (Val 0) = Val (1 / 4)"
    by (simp add: float_defs)
  have r1: "scale (Val (- 5)) [Val 0, Val 100] [Val 0, Val 1] = Inr (Val 0)"
    by (rule scale_clamps_and_interpolates [THEN conjunct1, THEN mp, OF a])
  have r2: "scale (Val 150) [Val 0, Val 100] [Val 0, Val 1] = Inr (Val 1)"
    by (rule scale_clamps_and_interpolates [THEN conjunct2, THEN conjunct1, THEN mp, OF b])
  have r3: "scale (Val 25) [Val 0, Val 100] [Val 0, Val 1] = Inr (Val (1 / 4))"
    using scale_clamps_and_interpolates [THEN conjunct2, THEN conjunct2, THEN conjunct1, THEN mp, OF c]
    by (simp only: e)
  from a b c r1 r2 r3 show ?thesis by blast
qed

text \<open>
  C9. The reducer is idempotent: reducing the frame that \<open>drop_all_except\<close> returned,
  with the same \<open>keep_column\<close>, returns a frame equal to it, and leaves it as it was.
\<close>

theorem drop_all_except_idempotent:
  assumes "df < length st"
  shows "case drop_all_except st df keep_column of
           (st1, res1) \<Rightarrow>
             (case drop_all_except st1 res1 keep_column of
                (st2, res2) \<Rightarrow> st2 ! res2 = st1 ! res1 \<and> st2 ! res1 = st1 ! res1)"
  by (simp add: drop_all_except_eq [OF assms] drop_all_except_eq [of "length st"]
      nth_append keep_only_fill_table keep_only_idem fill_table_idem)

theorem drop_all_except_idempotent_witness:
  "(0::nat) < length [bars_with_gaps] \<and>
   (case drop_all_except [bars_with_gaps] 0 ''Close'' of
      (st1, res1) \<Rightarrow>
        (case drop_all_except st1 res1 ''Close'' of
           (st2, res2) \<Rightarrow> st2 ! res2 = st1 ! res1 \<and> st2 ! res1 = st1 ! res1))"
  using drop_all_except_idempotent [of 0 "[bars_with_gaps]" "''Close''"] by simp




end
